theory Spec2Isabelle
  imports Main "HOL-Library.Word"
begin

unbundle bit_operations_syntax

section \<open>Machine types and constants of \<open>stm32-ltdc.c\<close>\<close>

text \<open>
  The driver runs on the STM32 (32-bit ARM): \<open>u32\<close>, \<open>unsigned int\<close> and
  \<open>unsigned long\<close> are all 32 bits wide and are modelled as \<open>32 word\<close>, whose
  \<open>+\<close>, \<open>-\<close> and \<open>*\<close> wrap around and whose \<open><\<close> is the unsigned comparison.
  C's \<open>int\<close> return codes are modelled as \<open>int\<close>; storing one in a \<open>u32\<close> field
  is \<open>word_of_int\<close>, the conversion modulo \<open>2^32\<close>.
\<close>

type_synonym u32 = "32 word"

definition LTDC_L1CFBAR :: u32 where "LTDC_L1CFBAR = 0xac"
definition LTDC_L1CFBLR :: u32 where "LTDC_L1CFBLR = 0xb0"
definition LTDC_L1PFCR :: u32 where "LTDC_L1PFCR = 0x94"
definition LTDC_L1DCCR :: u32 where "LTDC_L1DCCR = 0x9c"
definition LTDC_L1CR :: u32 where "LTDC_L1CR = 0x84"
definition LTDC_BCCR :: u32 where "LTDC_BCCR = 0x2c"
definition LTDC_IER :: u32 where "LTDC_IER = 0x34"
definition LTDC_ICR :: u32 where "LTDC_ICR = 0x3C"
definition LTDC_GCR :: u32 where "LTDC_GCR = 0x18"
definition LTDC_SSCR :: u32 where "LTDC_SSCR = 0x8"
definition LTDC_BPCR :: u32 where "LTDC_BPCR = 0xc"
definition LTDC_AWCR :: u32 where "LTDC_AWCR = 0x10"
definition LTDC_TWCR :: u32 where "LTDC_TWCR = 0x14"

definition CNTL_LCDEN :: u32 where "CNTL_LCDEN = 1"
definition LTDC_ARGB :: u32 where "LTDC_ARGB = 0"

text \<open>The error numbers of \<open>errno-base.h\<close> that the driver returns negated.\<close>

definition ENXIO :: int where "ENXIO = 6"
definition ENOMEM :: int where "ENOMEM = 12"
definition ENODEV :: int where "ENODEV = 19"
definition EINVAL :: int where "EINVAL = 22"

text \<open>The constants of \<open>fb.h\<close> that the driver stores.\<close>

definition FB_VISUAL_TRUECOLOR :: u32 where "FB_VISUAL_TRUECOLOR = 2"
definition FB_VISUAL_PSEUDOCOLOR :: u32 where "FB_VISUAL_PSEUDOCOLOR = 3"
definition FB_TYPE_PACKED_PIXELS :: u32 where "FB_TYPE_PACKED_PIXELS = 0"
definition FB_ACCEL_NONE :: u32 where "FB_ACCEL_NONE = 0"
definition FB_ACTIVATE_NOW :: u32 where "FB_ACTIVATE_NOW = 0"

section \<open>Data model\<close>

text \<open>\<open>struct fb_videomode\<close>: the panel timing (the \<open>name\<close> string is left out).\<close>

record fb_videomode =
  refresh :: u32
  xres :: u32
  yres :: u32
  pixclock :: u32
  left_margin :: u32
  right_margin :: u32
  upper_margin :: u32
  lower_margin :: u32
  hsync_len :: u32
  vsync_len :: u32
  sync :: u32
  vmode :: u32

text \<open>\<open>struct fb_bitfield\<close>; the field \<open>length\<close> is named \<open>bf_length\<close> here.\<close>

record fb_bitfield =
  bf_offset :: u32
  bf_length :: u32
  msb_right :: u32

text \<open>\<open>struct fb_var_screeninfo\<close>, the fields the driver reads or writes.\<close>

record fb_var_screeninfo =
  var_xres :: u32
  var_yres :: u32
  var_xres_virtual :: u32
  var_yres_virtual :: u32
  var_xoffset :: u32
  var_yoffset :: u32
  var_bits_per_pixel :: u32
  var_grayscale :: u32
  var_red :: fb_bitfield
  var_green :: fb_bitfield
  var_blue :: fb_bitfield
  var_transp :: fb_bitfield
  var_nonstd :: u32
  var_activate :: u32
  var_height :: u32
  var_width :: u32
  var_accel_flags :: u32
  var_pixclock :: u32
  var_left_margin :: u32
  var_right_margin :: u32
  var_upper_margin :: u32
  var_lower_margin :: u32
  var_hsync_len :: u32
  var_vsync_len :: u32
  var_sync :: u32
  var_vmode :: u32

text \<open>\<open>struct fb_fix_screeninfo\<close> (the \<open>id\<close> string is left out).\<close>

record fb_fix_screeninfo =
  fix_smem_start :: u32
  fix_smem_len :: u32
  fix_type :: u32
  fix_type_aux :: u32
  fix_visual :: u32
  fix_xpanstep :: u32
  fix_ypanstep :: u32
  fix_ywrapstep :: u32
  fix_line_length :: u32
  fix_mmio_start :: u32
  fix_mmio_len :: u32
  fix_accel :: u32

text \<open>
  \<open>struct ltdc_panel\<close>: \<open>width\<close> and \<open>height\<close> are \<open>signed short\<close>, \<open>bpp\<close> is an
  8-bit bit-field and \<open>grayscale\<close> a 1-bit bit-field. The fields the driver never
  touches (\<open>tim2\<close>, \<open>tim3\<close>, \<open>cntl\<close>, \<open>caps\<close>, \<open>fixedtimings\<close>, \<open>connector\<close>) are left out.
\<close>

record ltdc_panel =
  mode :: fb_videomode
  width :: "16 word"
  height :: "16 word"
  bpp :: "8 word"
  grayscale :: "1 word"

text \<open>
  \<open>struct ltdc_fb\<close>. \<open>fb_var\<close> and \<open>fb_fix\<close> are \<open>fb.var\<close> and \<open>fb.fix\<close> of the
  embedded \<open>struct fb_info\<close>. The memory-mapped controller behind \<open>regs\<close> is the
  register file \<open>regs\<close> (content by byte offset) together with \<open>writes\<close>, the
  log of every \<open>writel\<close> in program order as (offset, value).
\<close>

record ltdc_fb =
  fb_var :: fb_var_screeninfo
  fb_fix :: fb_fix_screeninfo
  panel :: ltdc_panel
  irq :: u32
  error_irq :: u32
  regs :: "u32 \<Rightarrow> u32"
  writes :: "(u32 \<times> u32) list"

definition readl :: "u32 \<Rightarrow> ltdc_fb \<Rightarrow> u32" where
  "readl off fb = regs fb off"

definition writel :: "u32 \<Rightarrow> u32 \<Rightarrow> ltdc_fb \<Rightarrow> ltdc_fb" where
  "writel v off fb = fb\<lparr>regs := (regs fb)(off := v), writes := writes fb @ [(off, v)]\<rparr>"

section \<open>Layer enable and disable\<close>

definition ltdcfb_disable :: "ltdc_fb \<Rightarrow> ltdc_fb" where
  "ltdcfb_disable fb =
     (let val = readl LTDC_L1CR fb;
          val = val AND NOT CNTL_LCDEN
      in writel val LTDC_L1CR fb)"

definition ltdcfb_enable :: "ltdc_fb \<Rightarrow> ltdc_fb" where
  "ltdcfb_enable fb =
     (let val = readl LTDC_L1CR fb;
          val = val OR CNTL_LCDEN
      in writel val LTDC_L1CR fb)"

section \<open>Scan-out window\<close>

definition ltdcfb_set_start :: "ltdc_fb \<Rightarrow> ltdc_fb" where
  "ltdcfb_set_start fb =
     (let ustart = fix_smem_start (fb_fix fb);
          ustart = ustart + var_yoffset (fb_var fb) * fix_line_length (fb_fix fb);
          lstart = ustart + var_yres (fb_var fb) * fix_line_length (fb_fix fb);
          len = (fix_line_length (fb_fix fb) + 3) OR push_bit 16 (fix_line_length (fb_fix fb))
      in writel LTDC_ARGB LTDC_L1PFCR
           (writel len LTDC_L1CFBLR
             (writel lstart LTDC_L1CFBAR fb)))"

section \<open>Colour bit-fields, mode check and mode set\<close>

definition ltdcfb_set_bitfields :: "ltdc_fb \<Rightarrow> fb_var_screeninfo \<Rightarrow> int \<times> fb_var_screeninfo" where
  "ltdcfb_set_bitfields fb var =
     (let ret = 0;
          var = var\<lparr>var_red := (var_red var)\<lparr>msb_right := 0\<rparr>\<rparr>;
          var = var\<lparr>var_green := (var_green var)\<lparr>msb_right := 0\<rparr>\<rparr>;
          var = var\<lparr>var_blue := (var_blue var)\<lparr>msb_right := 0\<rparr>\<rparr>;
          var = var\<lparr>var_transp := (var_transp var)\<lparr>msb_right := 0\<rparr>\<rparr>
      in if var_bits_per_pixel var = 32 then
           (let var = var\<lparr>var_red := (var_red var)\<lparr>bf_length := 8\<rparr>\<rparr>;
                var = var\<lparr>var_green := (var_green var)\<lparr>bf_length := 8\<rparr>\<rparr>;
                var = var\<lparr>var_blue := (var_blue var)\<lparr>bf_length := 8\<rparr>\<rparr>;
                var = var\<lparr>var_transp := (var_transp var)\<lparr>bf_length := 8\<rparr>\<rparr>;
                var = var\<lparr>var_blue := (var_blue var)\<lparr>bf_offset := 0\<rparr>\<rparr>;
                var = var\<lparr>var_green := (var_green var)
                        \<lparr>bf_offset := bf_offset (var_blue var) + bf_length (var_blue var)\<rparr>\<rparr>;
                var = var\<lparr>var_red := (var_red var)
                        \<lparr>bf_offset := bf_offset (var_green var) + bf_length (var_green var)\<rparr>\<rparr>;
                var = var\<lparr>var_transp := (var_transp var)
                        \<lparr>bf_offset := bf_offset (var_red var) + bf_length (var_red var)\<rparr>\<rparr>
            in (ret, var))
         else (- EINVAL, var))"

text \<open>
  \<open>ltdcfb_check_var\<close>: the local \<open>ret\<close> starts as \<open>-EINVAL\<close>, the size test
  assigns \<open>-EINVAL\<close> to it again, and the function returns what
  \<open>ltdcfb_set_bitfields\<close> returns. The model returns the return code, the candidate
  \<open>var\<close> as the function leaves it, and the driver context.
\<close>

definition ltdcfb_check_var ::
  "fb_var_screeninfo \<Rightarrow> ltdc_fb \<Rightarrow> int \<times> fb_var_screeninfo \<times> ltdc_fb" where
  "ltdcfb_check_var var fb =
     (let ret = - EINVAL;
          ret = (if var_xres_virtual var * (var_bits_per_pixel var div 8) * var_yres_virtual var
                      > fix_smem_len (fb_fix fb)
                 then - EINVAL else ret);
          r = ltdcfb_set_bitfields fb var
      in (fst r, snd r, fb))"

definition ltdcfb_set_par :: "ltdc_fb \<Rightarrow> int \<times> ltdc_fb" where
  "ltdcfb_set_par fb =
     (let fb = fb\<lparr>fb_fix := (fb_fix fb)
                 \<lparr>fix_line_length :=
                    var_xres_virtual (fb_var fb) * var_bits_per_pixel (fb_var fb) div 8\<rparr>\<rparr>;
          fb = (if var_bits_per_pixel (fb_var fb) \<le> 8
                then fb\<lparr>fb_fix := (fb_fix fb)\<lparr>fix_visual := FB_VISUAL_PSEUDOCOLOR\<rparr>\<rparr>
                else fb\<lparr>fb_fix := (fb_fix fb)\<lparr>fix_visual := FB_VISUAL_TRUECOLOR\<rparr>\<rparr>);
          fb = ltdcfb_set_start fb
      in (0, fb))"

definition ltdcfb_setcolreg :: "u32 \<Rightarrow> u32 \<Rightarrow> u32 \<Rightarrow> u32 \<Rightarrow> u32 \<Rightarrow> ltdc_fb \<Rightarrow> int" where
  "ltdcfb_setcolreg regno red green blue transparency fb = - EINVAL"

definition ltdcfb_blank :: "int \<Rightarrow> ltdc_fb \<Rightarrow> int" where
  "ltdcfb_blank blank_mode fb = 0"

definition ltdc_interrupt :: "ltdc_fb \<Rightarrow> ltdc_fb" where
  "ltdc_interrupt fb = writel 0xf LTDC_ICR fb"

section \<open>Bits per pixel from the memory bandwidth\<close>

text \<open>
  Modelled from the spec: the macro \<open>PICOS2KHZ\<close> (\<open>fb.h\<close>) is not among the sources.
  The spec has it "compute a pixel-clock frequency (kHz) from the mode's pixel clock
  (picoseconds)", that is \<open>1000000000 / pixclock\<close> in \<open>unsigned long\<close> arithmetic.
  A pixel clock of 0 divides by zero, which C leaves undefined: \<open>None\<close>.
\<close>

definition PICOS2KHZ :: "u32 \<Rightarrow> u32 option" where
  "PICOS2KHZ a = (if a = 0 then None else Some (1000000000 div a))"

text \<open>\<open>fls n\<close>: the position of the highest set bit of \<open>n\<close>, counted from 1; 0 for 0.\<close>

fun fls :: "nat \<Rightarrow> nat" where
  "fls n = (if n = 0 then 0 else Suc (fls (n div 2)))"

declare fls.simps [simp del]

text \<open>
  Modelled from the spec: the macro \<open>rounddown_pow_of_two\<close> (\<open>log2.h\<close>) is not among
  the sources. The spec has it "round down to the nearest power of two": the value
  with only the highest set bit of \<open>n\<close> kept, \<open>1 << (fls n - 1)\<close>. No power of two is
  below 1, and the shift count is out of range for \<open>n = 0\<close>: \<open>None\<close>.
\<close>

definition rounddown_pow_of_two :: "u32 \<Rightarrow> u32 option" where
  "rounddown_pow_of_two n = (if n = 0 then None else Some (push_bit (fls (unat n) - 1) 1))"

text \<open>
  Lines 488 to 504 of \<open>ltdcfb_of_init\<close>. The argument is what
  \<open>of_property_read_u32\<close> found for "max-memory-bandwidth" (\<open>None\<close> when it returns
  an error) and the pixel clock of the mode. The result is the local \<open>bpp\<close>, or
  \<open>None\<close> where the computation leaves C's defined behaviour (a division by zero,
  or \<open>rounddown_pow_of_two\<close> of 0).
\<close>

definition ltdcfb_of_init_bpp :: "u32 option \<Rightarrow> u32 \<Rightarrow> u32 option" where
  "ltdcfb_of_init_bpp max_bandwidth pclk =
     (case max_bandwidth of
        None \<Rightarrow> Some 32
      | Some mb \<Rightarrow>
          (case PICOS2KHZ pclk of
             None \<Rightarrow> None
           | Some khz \<Rightarrow>
               if khz = 0 then None
               else (case rounddown_pow_of_two (mb div (1000 div 8) div khz) of
                       None \<Rightarrow> None
                     | Some b \<Rightarrow> Some (if b > 32 then 32 else b))))"

text \<open>
  What the device tree gives \<open>ltdcfb_of_init\<close>: whether \<open>devm_kzalloc\<close> and
  \<open>of_graph_get_next_endpoint\<close> return non-NULL, the error code and mode that
  \<open>ltdcfb_of_get_mode\<close> leaves (it only forwards to the device-tree parser), and
  the "max-memory-bandwidth" property.
\<close>

record of_env =
  devm_kzalloc :: bool
  of_graph_get_next_endpoint :: bool
  of_get_mode :: "int \<times> fb_videomode"
  max_memory_bandwidth :: "u32 option"

definition fb_videomode_zero :: fb_videomode where
  "fb_videomode_zero = \<lparr>refresh = 0, xres = 0, yres = 0, pixclock = 0, left_margin = 0,
     right_margin = 0, upper_margin = 0, lower_margin = 0, hsync_len = 0, vsync_len = 0,
     sync = 0, vmode = 0\<rparr>"

definition ltdc_panel_zero :: ltdc_panel where
  "ltdc_panel_zero = \<lparr>mode = fb_videomode_zero, width = 0, height = 0, bpp = 0, grayscale = 0\<rparr>"

text \<open>
  \<open>ltdcfb_of_init\<close>: \<open>Some (ret, fb)\<close> is a return with code \<open>ret\<close>; \<open>None\<close> is
  undefined behaviour in the bits-per-pixel computation.
\<close>

definition ltdcfb_of_init :: "of_env \<Rightarrow> ltdc_fb \<Rightarrow> (int \<times> ltdc_fb) option" where
  "ltdcfb_of_init env fb =
     (if \<not> devm_kzalloc env then Some (- ENOMEM, fb)
      else let fb = fb\<lparr>panel := ltdc_panel_zero\<rparr> in
      if \<not> of_graph_get_next_endpoint env then Some (- ENODEV, fb)
      else let err = fst (of_get_mode env);
               fb = fb\<lparr>panel := (panel fb)\<lparr>mode := snd (of_get_mode env)\<rparr>\<rparr> in
      if err \<noteq> 0 then Some (err, fb)
      else (case ltdcfb_of_init_bpp (max_memory_bandwidth env) (pixclock (mode (panel fb))) of
              None \<Rightarrow> None
            | Some b \<Rightarrow>
                (let fb = fb\<lparr>panel := (panel fb)\<lparr>bpp := ucast b\<rparr>\<rparr>;
                     fb = fb\<lparr>panel := (panel fb)\<lparr>width := - 1\<rparr>\<rparr>;
                     fb = fb\<lparr>panel := (panel fb)\<lparr>height := - 1\<rparr>\<rparr>
                 in Some (0, fb))))"

text \<open>
  The resolver as the specification words it, on unbounded naturals: the raw value
  \<open>floor (8 * B / (kHz * 1000))\<close> with \<open>kHz = 10^9 / P\<close>, the largest power of two not
  above it, and the clamp to 32; a raw value below 1 is a configuration error.
\<close>

definition spec_bpp_raw :: "nat \<Rightarrow> nat \<Rightarrow> nat" where
  "spec_bpp_raw B P = (8 * B) div ((1000000000 div P) * 1000)"

definition spec_rounddown :: "nat \<Rightarrow> nat" where
  "spec_rounddown n = Max {p. p \<le> n \<and> (\<exists>k. p = 2 ^ k)}"

definition spec_bpp :: "nat \<Rightarrow> nat \<Rightarrow> nat" where
  "spec_bpp B P = min 32 (spec_rounddown (spec_bpp_raw B P))"

section \<open>Registration\<close>

text \<open>
  The resources \<open>ltdcfb_register\<close> takes, each named after the call that takes it:
  \<open>devm_clk_get\<close> (\<open>Clock\<close>, given back by \<open>clk_put\<close>), \<open>clk_prepare_enable\<close>
  (\<open>Clock_prepared\<close>, by \<open>clk_unprepare\<close>), \<open>ioremap\<close> (\<open>Register_map\<close>, by
  \<open>iounmap\<close>), \<open>request_irq\<close> on a line (\<open>Interrupt\<close>, by \<open>free_irq\<close>),
  \<open>dma_alloc_wc\<close> (\<open>Buffer\<close>, by \<open>dma_free_wc\<close>), \<open>fb_alloc_cmap\<close> (\<open>Cmap\<close>, by
  \<open>fb_dealloc_cmap\<close>) and \<open>register_framebuffer\<close> (\<open>Framebuffer\<close>, by
  \<open>unregister_framebuffer\<close>). The trace of a run lists, in program order, every
  such call that succeeded, every one that failed, and every release.
\<close>

datatype resource =
  Clock | Clock_prepared | Register_map | Interrupt u32 | Buffer | Cmap | Framebuffer

datatype event = Acquired resource | Failed resource | Released resource

text \<open>
  The outcomes of the kernel calls of \<open>ltdcfb_register\<close>, each field named after
  its call:
  \<^item> \<open>devm_clk_get\<close>: \<open>Inr ()\<close> for a clock, \<open>Inl e\<close> for \<open>ERR_PTR(e)\<close>;
  \<^item> \<open>clk_prepare_enable\<close>, \<open>fb_alloc_cmap\<close>, \<open>register_framebuffer\<close>: the return code;
  \<^item> \<open>platform_get_resource\<close>: start and size of the memory resource, or \<open>None\<close> for NULL;
  \<^item> \<open>ioremap\<close>: whether the mapping is non-NULL;
  \<^item> \<open>platform_get_irq_byname\<close>: the \<open>int\<close> returned for a name;
  \<^item> \<open>request_irq k n\<close>: the return code of the \<open>k\<close>-th call (from 0), made on line \<open>n\<close>;
  \<^item> \<open>dma_alloc_wc\<close>: the bus address of a buffer of the given size, or \<open>None\<close> for NULL;
  \<^item> \<open>fb_set_var\<close>: what the framebuffer core does to the driver context.
\<close>

record probe_env =
  devm_clk_get :: "int + unit"
  clk_prepare_enable :: int
  platform_get_resource :: "(u32 \<times> u32) option"
  ioremap :: bool
  platform_get_irq_byname :: "string \<Rightarrow> int"
  request_irq :: "nat \<Rightarrow> u32 \<Rightarrow> int"
  dma_alloc_wc :: "u32 \<Rightarrow> u32 option"
  fb_alloc_cmap :: int
  fb_set_var :: "ltdc_fb \<Rightarrow> ltdc_fb"
  register_framebuffer :: int

text \<open>The labels \<open>free_clk\<close>, \<open>clk_unprep\<close> and \<open>unmap\<close>: what runs from each to \<open>out\<close>.\<close>

definition free_clk :: "event list" where
  "free_clk = [Released Clock]"

definition clk_unprep :: "event list" where
  "clk_unprep = Released Clock_prepared # free_clk"

definition unmap :: "event list" where
  "unmap = Released Register_map # clk_unprep"

text \<open>
  Lines 313 to 359 of \<open>ltdcfb_register\<close>: the fixed and variable screen
  information, from the bus address \<open>dma\<close> of the buffer, \<open>framesize\<close> and the
  panel. \<open>panel->width\<close> is assigned twice, as in the source. The test pattern
  written to the buffer (lines 305 to 311) is not part of the model, which has
  no buffer content.
\<close>

definition ltdcfb_register_info :: "u32 \<Rightarrow> u32 \<Rightarrow> ltdc_fb \<Rightarrow> ltdc_fb" where
  "ltdcfb_register_info dma framesize fb =
     (let fb = fb\<lparr>fb_fix := (fb_fix fb)\<lparr>fix_smem_start := dma, fix_smem_len := framesize\<rparr>\<rparr>;
          fb = fb\<lparr>fb_fix := (fb_fix fb)
                 \<lparr>fix_type := FB_TYPE_PACKED_PIXELS, fix_type_aux := 0, fix_xpanstep := 0,
                  fix_ypanstep := 0, fix_ywrapstep := 0, fix_accel := FB_ACCEL_NONE\<rparr>\<rparr>;
          fb = fb\<lparr>panel := (panel fb)\<lparr>width := 480\<rparr>\<rparr>;
          fb = fb\<lparr>panel := (panel fb)\<lparr>width := 272\<rparr>\<rparr>;
          m = mode (panel fb);
          fb = fb\<lparr>fb_var := (fb_var fb)
                 \<lparr>var_xres := xres m,
                  var_yres := yres m,
                  var_xres_virtual := xres m,
                  var_yres_virtual := yres m,
                  var_bits_per_pixel := ucast (bpp (panel fb)),
                  var_grayscale := ucast (grayscale (panel fb)),
                  var_pixclock := pixclock m,
                  var_left_margin := left_margin m,
                  var_right_margin := right_margin m,
                  var_upper_margin := upper_margin m,
                  var_lower_margin := lower_margin m,
                  var_hsync_len := hsync_len m,
                  var_vsync_len := vsync_len m,
                  var_sync := sync m,
                  var_vmode := vmode m,
                  var_activate := FB_ACTIVATE_NOW,
                  var_nonstd := 0,
                  var_height := scast (height (panel fb)),
                  var_width := scast (width (panel fb)),
                  var_accel_flags := 0\<rparr>\<rparr>
      in fb\<lparr>fb_var := snd (ltdcfb_set_bitfields fb (fb_var fb))\<rparr>)"

text \<open>
  Lines 365 to 384 of \<open>ltdcfb_register\<close>: the interrupt enable, the four timing
  registers, the global enable and the layer enable.
\<close>

definition ltdcfb_register_timing :: "ltdc_fb \<Rightarrow> ltdc_fb" where
  "ltdcfb_register_timing fb =
     (let m = mode (panel fb);
          fb = writel 0xf LTDC_IER fb;
          fb = writel ((vsync_len m - 1) OR push_bit 16 (hsync_len m - 1)) LTDC_SSCR fb;
          fb = writel ((vsync_len m + upper_margin m - 1)
                       OR push_bit 16 (hsync_len m + left_margin m - 1)) LTDC_BPCR fb;
          fb = writel ((vsync_len m + upper_margin m + 272 - 1)
                       OR push_bit 16 (hsync_len m + left_margin m + 480 - 1)) LTDC_AWCR fb;
          fb = writel ((vsync_len m + upper_margin m + 272 + lower_margin m - 1)
                       OR push_bit 16 (hsync_len m + left_margin m + 480 + right_margin m - 1))
                 LTDC_TWCR fb;
          fb = writel 1 LTDC_GCR fb
      in ltdcfb_enable fb)"

text \<open>
  \<open>ltdcfb_register\<close>: the return code, the driver context as the function leaves
  it, and the trace of resources. Each \<open>goto\<close> of the source is the run of releases
  from its label.
\<close>

definition ltdcfb_register :: "probe_env \<Rightarrow> ltdc_fb \<Rightarrow> int \<times> ltdc_fb \<times> event list" where
  "ltdcfb_register env fb =
     (let framesize = 480 * 272 * 4 in
      case devm_clk_get env of
        Inl e \<Rightarrow> (e, fb, [Failed Clock])
      | Inr _ \<Rightarrow>
      let tr = [Acquired Clock];
          ret = clk_prepare_enable env in
      if ret \<noteq> 0 then (ret, fb, tr @ [Failed Clock_prepared] @ free_clk)
      else
      let tr = tr @ [Acquired Clock_prepared] in
      case platform_get_resource env of
        None \<Rightarrow> (- ENXIO, fb, tr @ clk_unprep)
      | Some (r_start, r_size) \<Rightarrow>
      let fb = fb\<lparr>fb_fix := (fb_fix fb)\<lparr>fix_mmio_start := r_start, fix_mmio_len := r_size\<rparr>\<rparr> in
      if \<not> ioremap env then (- ENOMEM, fb, tr @ [Failed Register_map] @ clk_unprep)
      else
      let tr = tr @ [Acquired Register_map];
          fb = fb\<lparr>irq := word_of_int (platform_get_irq_byname env ''ltdc-irq'')\<rparr>;
          fb = fb\<lparr>error_irq := word_of_int (platform_get_irq_byname env ''ltdc-error-irq'')\<rparr> in
      if irq fb < 0 \<or> error_irq fb < 0 then (- ENXIO, fb, tr @ clk_unprep)
      else
      if request_irq env 0 (irq fb) < 0
      then (- ENXIO, fb, tr @ [Failed (Interrupt (irq fb))] @ clk_unprep)
      else
      let tr = tr @ [Acquired (Interrupt (irq fb))] in
      if request_irq env 1 (error_irq fb) < 0
      then (- ENXIO, fb, tr @ [Failed (Interrupt (error_irq fb))] @ clk_unprep)
      else
      let tr = tr @ [Acquired (Interrupt (error_irq fb))] in
      case dma_alloc_wc env framesize of
        None \<Rightarrow> (- ENOMEM, fb, tr @ [Failed Buffer] @ clk_unprep)
      | Some dma \<Rightarrow>
      let tr = tr @ [Acquired Buffer];
          fb = ltdcfb_register_info dma framesize fb;
          ret = fb_alloc_cmap env in
      if ret \<noteq> 0 then (ret, fb, tr @ [Failed Cmap] @ unmap)
      else
      let tr = tr @ [Acquired Cmap];
          fb = ltdcfb_register_timing fb;
          fb = fb_set_var env fb;
          fb = ltdcfb_set_start fb;
          ret = register_framebuffer env in
      if ret = 0 then (ret, fb, tr @ [Acquired Framebuffer])
      else (ret, fb, tr @ [Failed Framebuffer, Released Cmap, Released Buffer] @ unmap))"

text \<open>
  The resources a trace leaves held, latest first: an acquisition pushes its
  resource, a release removes it, a failed call changes nothing.
\<close>

fun held_step :: "resource list \<Rightarrow> event \<Rightarrow> resource list" where
  "held_step rs (Acquired r) = r # rs"
| "held_step rs (Failed r) = rs"
| "held_step rs (Released r) = remove1 r rs"

definition held :: "event list \<Rightarrow> resource list" where
  "held tr = foldl held_step [] tr"

text \<open>The releases of a trace, in the order they happen.\<close>

fun released :: "event list \<Rightarrow> resource list" where
  "released [] = []"
| "released (Released r # tr) = r # released tr"
| "released (e # tr) = released tr"

text \<open>The resources a trace acquires, in the order they are acquired.\<close>

fun acquired :: "event list \<Rightarrow> resource list" where
  "acquired [] = []"
| "acquired (Acquired r # tr) = r # acquired tr"
| "acquired (e # tr) = acquired tr"

section \<open>Concrete contexts and environments\<close>

text \<open>The context as \<open>kzalloc\<close> returns it, over a controller whose registers read 0.\<close>

definition fb_bitfield_zero :: fb_bitfield where
  "fb_bitfield_zero = \<lparr>bf_offset = 0, bf_length = 0, msb_right = 0\<rparr>"

definition fb_var_zero :: fb_var_screeninfo where
  "fb_var_zero = \<lparr>var_xres = 0, var_yres = 0, var_xres_virtual = 0, var_yres_virtual = 0,
     var_xoffset = 0, var_yoffset = 0, var_bits_per_pixel = 0, var_grayscale = 0,
     var_red = fb_bitfield_zero, var_green = fb_bitfield_zero, var_blue = fb_bitfield_zero,
     var_transp = fb_bitfield_zero, var_nonstd = 0, var_activate = 0, var_height = 0,
     var_width = 0, var_accel_flags = 0, var_pixclock = 0, var_left_margin = 0,
     var_right_margin = 0, var_upper_margin = 0, var_lower_margin = 0, var_hsync_len = 0,
     var_vsync_len = 0, var_sync = 0, var_vmode = 0\<rparr>"

definition fb_fix_zero :: fb_fix_screeninfo where
  "fb_fix_zero = \<lparr>fix_smem_start = 0, fix_smem_len = 0, fix_type = 0, fix_type_aux = 0,
     fix_visual = 0, fix_xpanstep = 0, fix_ypanstep = 0, fix_ywrapstep = 0,
     fix_line_length = 0, fix_mmio_start = 0, fix_mmio_len = 0, fix_accel = 0\<rparr>"

definition regs_zero :: "u32 \<Rightarrow> u32" where
  "regs_zero = (\<lambda>off. 0)"

definition ltdc_fb_zero :: ltdc_fb where
  "ltdc_fb_zero = \<lparr>fb_var = fb_var_zero, fb_fix = fb_fix_zero, panel = ltdc_panel_zero,
     irq = 0, error_irq = 0, regs = regs_zero, writes = []\<rparr>"

text \<open>
  The 480x272 panel of the specification's worked scenario (pixel clock 9 MHz),
  and an 800x480 panel (pixel clock 30 MHz).
\<close>

definition mode_480x272 :: fb_videomode where
  "mode_480x272 = \<lparr>refresh = 60, xres = 480, yres = 272, pixclock = 111111, left_margin = 13,
     right_margin = 32, upper_margin = 2, lower_margin = 2, hsync_len = 41, vsync_len = 10,
     sync = 0, vmode = 0\<rparr>"

definition mode_800x480 :: fb_videomode where
  "mode_800x480 = \<lparr>refresh = 60, xres = 800, yres = 480, pixclock = 33333, left_margin = 88,
     right_margin = 40, upper_margin = 32, lower_margin = 13, hsync_len = 48, vsync_len = 3,
     sync = 0, vmode = 0\<rparr>"

text \<open>A device tree with a panel mode and, optionally, "max-memory-bandwidth".\<close>

definition of_env_of :: "fb_videomode \<Rightarrow> u32 option \<Rightarrow> of_env" where
  "of_env_of m mb = \<lparr>devm_kzalloc = True, of_graph_get_next_endpoint = True,
     of_get_mode = (0, m), max_memory_bandwidth = mb\<rparr>"

text \<open>
  An environment in which every call succeeds: interrupt lines 88 and 89, the
  registers at 0x40016800, the buffer at 0xC0000000, and a framebuffer core whose
  \<open>fb_set_var\<close> leaves the context as it is.
\<close>

definition irq_lookup_ok :: "string \<Rightarrow> int" where
  "irq_lookup_ok name = (if name = ''ltdc-irq'' then 88 else 89)"

definition request_irq_ok :: "nat \<Rightarrow> u32 \<Rightarrow> int" where
  "request_irq_ok k n = 0"

definition dma_alloc_ok :: "u32 \<Rightarrow> u32 option" where
  "dma_alloc_ok sz = Some 0xC0000000"

definition fb_set_var_none :: "ltdc_fb \<Rightarrow> ltdc_fb" where
  "fb_set_var_none fb = fb"

definition env_ok :: probe_env where
  "env_ok = \<lparr>devm_clk_get = Inr (), clk_prepare_enable = 0,
     platform_get_resource = Some (0x40016800, 0x400), ioremap = True,
     platform_get_irq_byname = irq_lookup_ok, request_irq = request_irq_ok,
     dma_alloc_wc = dma_alloc_ok, fb_alloc_cmap = 0, fb_set_var = fb_set_var_none,
     register_framebuffer = 0\<rparr>"

text \<open>The same, but the first \<open>request_irq\<close> fails with \<open>-EBUSY\<close> (\<open>-16\<close>).\<close>

definition request_irq_busy :: "nat \<Rightarrow> u32 \<Rightarrow> int" where
  "request_irq_busy k n = (if k = 0 then - 16 else 0)"

definition env_irq_fails :: probe_env where
  "env_irq_fails = env_ok\<lparr>request_irq := request_irq_busy\<rparr>"

text \<open>The same as \<open>env_ok\<close>, but both interrupt lookups return \<open>-ENXIO\<close>.\<close>

definition irq_lookup_fails :: "string \<Rightarrow> int" where
  "irq_lookup_fails name = - ENXIO"

definition env_no_irq :: probe_env where
  "env_no_irq = env_ok\<lparr>platform_get_irq_byname := irq_lookup_fails\<rparr>"

text \<open>The zeroed context with the panel set to a mode at 32 bits per pixel.\<close>

definition fb_of_mode :: "fb_videomode \<Rightarrow> ltdc_fb" where
  "fb_of_mode m = ltdc_fb_zero\<lparr>panel := ltdc_panel_zero\<lparr>mode := m, bpp := 32\<rparr>\<rparr>"

text \<open>
  A context in the state \<open>ltdcfb_set_par\<close> leaves for the 480x272 panel at 32
  bits per pixel: buffer of 522240 bytes at 0xC0000000, 1920 bytes per line, no
  vertical offset.
\<close>

definition fb_panning :: ltdc_fb where
  "fb_panning = ltdc_fb_zero
     \<lparr>fb_var := fb_var_zero\<lparr>var_xres := 480, var_yres := 272, var_xres_virtual := 480,
          var_yres_virtual := 272, var_yoffset := 0, var_bits_per_pixel := 32\<rparr>,
      fb_fix := fb_fix_zero\<lparr>fix_smem_start := 0xC0000000, fix_smem_len := 522240,
          fix_line_length := 1920\<rparr>\<rparr>"

text \<open>A candidate mode of 800x480 at 32 bits per pixel: 1536000 bytes.\<close>

definition var_800x480 :: fb_var_screeninfo where
  "var_800x480 = fb_var_zero\<lparr>var_xres := 800, var_yres := 480, var_xres_virtual := 800,
     var_yres_virtual := 480, var_bits_per_pixel := 32\<rparr>"

text \<open>The context after a registration in which every call succeeds.\<close>

definition fb_registered :: "fb_videomode \<Rightarrow> ltdc_fb" where
  "fb_registered m = fst (snd (ltdcfb_register env_ok (fb_of_mode m)))"

text \<open>
  The context after the two steps of \<open>ltdcfb_probe\<close> on the zeroed context:
  \<open>ltdcfb_of_init\<close> on a device tree, then a registration in which every call
  succeeds.
\<close>

definition fb_probed :: "fb_videomode \<Rightarrow> u32 option \<Rightarrow> ltdc_fb" where
  "fb_probed m mb =
     (case ltdcfb_of_init (of_env_of m mb) ltdc_fb_zero of
        Some (ret, fb) \<Rightarrow> fst (snd (ltdcfb_register env_ok fb))
      | None \<Rightarrow> ltdc_fb_zero)"

text \<open>
  The registered 480x272 context after a consumer has requested a virtual width
  of \<open>2^27\<close> pixels at 32 bits per pixel.
\<close>

definition fb_wide :: ltdc_fb where
  "fb_wide = (fb_registered mode_480x272)
     \<lparr>fb_var := (fb_var (fb_registered mode_480x272))\<lparr>var_xres_virtual := 0x8000000\<rparr>\<rparr>"

section \<open>Register contents and write logs\<close>

lemmas ltdc_offsets =
  LTDC_L1CFBAR_def LTDC_L1CFBLR_def LTDC_L1PFCR_def LTDC_L1DCCR_def LTDC_L1CR_def
  LTDC_BCCR_def LTDC_IER_def LTDC_ICR_def LTDC_GCR_def LTDC_SSCR_def LTDC_BPCR_def
  LTDC_AWCR_def LTDC_TWCR_def

lemma regs_enable:
  "regs (ltdcfb_enable fb) = (regs fb)(LTDC_L1CR := regs fb LTDC_L1CR OR CNTL_LCDEN)"
  by (simp add: ltdcfb_enable_def readl_def writel_def Let_def)

lemma regs_disable:
  "regs (ltdcfb_disable fb) = (regs fb)(LTDC_L1CR := regs fb LTDC_L1CR AND NOT CNTL_LCDEN)"
  by (simp add: ltdcfb_disable_def readl_def writel_def Let_def)

lemma or_and_not_one: "(w OR 1) AND NOT 1 = w AND NOT (1::u32)"
  by (rule bit_eqI) (auto simp: bit_simps)

lemma bit_and_not_one: "bit (w AND NOT (1::u32)) n = (n \<noteq> 0 \<and> bit w n)"
  by (simp only: bit_and_iff bit_not_iff bit_1_iff) (auto dest: bit_imp_le_length)

lemma or_and_minus_two: "(w OR 1) AND - 2 = w AND (- 2::u32)"
  using or_and_not_one [of w] by simp

lemma regs_register_timing:
  "regs (ltdcfb_register_timing fb) =
     (let m = mode (panel fb) in
      (regs fb)
        (LTDC_IER := 0xf,
         LTDC_SSCR := (vsync_len m - 1) OR push_bit 16 (hsync_len m - 1),
         LTDC_BPCR := (vsync_len m + upper_margin m - 1)
                       OR push_bit 16 (hsync_len m + left_margin m - 1),
         LTDC_AWCR := (vsync_len m + upper_margin m + 272 - 1)
                       OR push_bit 16 (hsync_len m + left_margin m + 480 - 1),
         LTDC_TWCR := (vsync_len m + upper_margin m + 272 + lower_margin m - 1)
                       OR push_bit 16 (hsync_len m + left_margin m + 480 + right_margin m - 1),
         LTDC_GCR := 1,
         LTDC_L1CR := regs fb LTDC_L1CR OR CNTL_LCDEN))"
  by (simp add: ltdcfb_register_timing_def ltdcfb_enable_def readl_def writel_def Let_def
      ltdc_offsets)

lemma writes_register_timing:
  "writes (ltdcfb_register_timing fb) =
     (let m = mode (panel fb) in
      writes fb @
        [(LTDC_IER, 0xf),
         (LTDC_SSCR, (vsync_len m - 1) OR push_bit 16 (hsync_len m - 1)),
         (LTDC_BPCR, (vsync_len m + upper_margin m - 1)
                       OR push_bit 16 (hsync_len m + left_margin m - 1)),
         (LTDC_AWCR, (vsync_len m + upper_margin m + 272 - 1)
                       OR push_bit 16 (hsync_len m + left_margin m + 480 - 1)),
         (LTDC_TWCR, (vsync_len m + upper_margin m + 272 + lower_margin m - 1)
                       OR push_bit 16 (hsync_len m + left_margin m + 480 + right_margin m - 1)),
         (LTDC_GCR, 1),
         (LTDC_L1CR, regs fb LTDC_L1CR OR CNTL_LCDEN)])"
  by (simp add: ltdcfb_register_timing_def ltdcfb_enable_def readl_def writel_def Let_def
      ltdc_offsets)

lemma regs_set_start:
  "regs (ltdcfb_set_start fb) =
     (regs fb)
       (LTDC_L1CFBAR := fix_smem_start (fb_fix fb)
            + var_yoffset (fb_var fb) * fix_line_length (fb_fix fb)
            + var_yres (fb_var fb) * fix_line_length (fb_fix fb),
        LTDC_L1CFBLR := (fix_line_length (fb_fix fb) + 3)
            OR push_bit 16 (fix_line_length (fb_fix fb)),
        LTDC_L1PFCR := LTDC_ARGB)"
  by (simp add: ltdcfb_set_start_def writel_def Let_def)

lemma writes_set_start:
  "writes (ltdcfb_set_start fb) =
     writes fb @
       [(LTDC_L1CFBAR, fix_smem_start (fb_fix fb)
            + var_yoffset (fb_var fb) * fix_line_length (fb_fix fb)
            + var_yres (fb_var fb) * fix_line_length (fb_fix fb)),
        (LTDC_L1CFBLR, (fix_line_length (fb_fix fb) + 3)
            OR push_bit 16 (fix_line_length (fb_fix fb))),
        (LTDC_L1PFCR, LTDC_ARGB)]"
  by (simp add: ltdcfb_set_start_def writel_def Let_def)

lemma regs_register_info: "regs (ltdcfb_register_info dma framesize fb) = regs fb"
  by (simp add: ltdcfb_register_info_def Let_def)

lemma panel_mode_register_info:
  "mode (panel (ltdcfb_register_info dma framesize fb)) = mode (panel fb)"
  by (simp add: ltdcfb_register_info_def Let_def)

lemma unat_pack:
  fixes a b :: u32
  shows "unat (a OR push_bit 16 b) = unat a OR (unat b * 2 ^ 16) mod 2 ^ 32"
  by (simp add: unsigned_or_eq push_bit_eq_mult unat_word_ariths)

lemma unat_pred: "0 < (v::u32) \<Longrightarrow> unat (v - 1) = unat v - 1"
  by (simp add: unat_minus_one word_neq_0_conv)

lemma fb_fix_set_start: "fb_fix (ltdcfb_set_start fb) = fb_fix fb"
  by (simp add: ltdcfb_set_start_def writel_def Let_def)

lemma fb_var_set_start: "fb_var (ltdcfb_set_start fb) = fb_var fb"
  by (simp add: ltdcfb_set_start_def writel_def Let_def)

lemma fb_fix_register_timing: "fb_fix (ltdcfb_register_timing fb) = fb_fix fb"
  by (simp add: ltdcfb_register_timing_def ltdcfb_enable_def writel_def Let_def)

lemma fb_var_register_timing: "fb_var (ltdcfb_register_timing fb) = fb_var fb"
  by (simp add: ltdcfb_register_timing_def ltdcfb_enable_def writel_def Let_def)

lemma smem_len_register_info:
  "fix_smem_len (fb_fix (ltdcfb_register_info dma framesize fb)) = framesize"
  by (simp add: ltdcfb_register_info_def Let_def)

lemma var_set_bitfields:
  "var_xres_virtual (snd (ltdcfb_set_bitfields fb var)) = var_xres_virtual var
   \<and> var_yres_virtual (snd (ltdcfb_set_bitfields fb var)) = var_yres_virtual var
   \<and> var_yres (snd (ltdcfb_set_bitfields fb var)) = var_yres var
   \<and> var_bits_per_pixel (snd (ltdcfb_set_bitfields fb var)) = var_bits_per_pixel var"
  by (simp add: ltdcfb_set_bitfields_def Let_def)

lemma var_register_info:
  "var_xres_virtual (fb_var (ltdcfb_register_info dma framesize fb)) = xres (mode (panel fb))
   \<and> var_yres_virtual (fb_var (ltdcfb_register_info dma framesize fb)) = yres (mode (panel fb))
   \<and> var_yres (fb_var (ltdcfb_register_info dma framesize fb)) = yres (mode (panel fb))
   \<and> var_bits_per_pixel (fb_var (ltdcfb_register_info dma framesize fb)) = ucast (bpp (panel fb))"
  by (simp add: ltdcfb_register_info_def Let_def var_set_bitfields)

lemma fb_fix_set_par:
  "fb_fix (snd (ltdcfb_set_par fb)) =
     (fb_fix fb)\<lparr>fix_line_length := var_xres_virtual (fb_var fb) * var_bits_per_pixel (fb_var fb) div 8,
                 fix_visual := (if var_bits_per_pixel (fb_var fb) \<le> 8
                                then FB_VISUAL_PSEUDOCOLOR else FB_VISUAL_TRUECOLOR)\<rparr>"
  by (simp add: ltdcfb_set_par_def Let_def fb_fix_set_start)

lemma fb_var_set_par: "fb_var (snd (ltdcfb_set_par fb)) = fb_var fb"
  by (simp add: ltdcfb_set_par_def Let_def fb_var_set_start)

section \<open>Paths through registration\<close>

lemma ltdcfb_register_reaches_irq:
  assumes "devm_clk_get env = Inr u" and "clk_prepare_enable env = 0"
    and "platform_get_resource env = Some res" and "ioremap env"
  shows "take 4 (snd (snd (ltdcfb_register env fb))) =
           [Acquired Clock, Acquired Clock_prepared, Acquired Register_map,
            if request_irq env 0 (word_of_int (platform_get_irq_byname env ''ltdc-irq'')) < 0
            then Failed (Interrupt (word_of_int (platform_get_irq_byname env ''ltdc-irq'')))
            else Acquired (Interrupt (word_of_int (platform_get_irq_byname env ''ltdc-irq'')))]"
  using assms
  by (cases res)
     (simp add: ltdcfb_register_def Let_def clk_unprep_def free_clk_def unmap_def
       split: option.split)

lemma ltdcfb_register_success:
  assumes "devm_clk_get env = Inr u" and "clk_prepare_enable env = 0"
    and "platform_get_resource env = Some (a, l)" and "ioremap env"
    and "0 \<le> request_irq env 0 (word_of_int (platform_get_irq_byname env ''ltdc-irq''))"
    and "0 \<le> request_irq env 1 (word_of_int (platform_get_irq_byname env ''ltdc-error-irq''))"
    and "dma_alloc_wc env 522240 = Some dma"
    and "fb_alloc_cmap env = 0" and "register_framebuffer env = 0"
  shows "ltdcfb_register env fb =
     (0,
      ltdcfb_set_start (fb_set_var env (ltdcfb_register_timing (ltdcfb_register_info dma 522240
        (fb\<lparr>fb_fix := (fb_fix fb)\<lparr>fix_mmio_start := a, fix_mmio_len := l\<rparr>,
            irq := word_of_int (platform_get_irq_byname env ''ltdc-irq''),
            error_irq := word_of_int (platform_get_irq_byname env ''ltdc-error-irq'')\<rparr>)))),
      [Acquired Clock, Acquired Clock_prepared, Acquired Register_map,
       Acquired (Interrupt (word_of_int (platform_get_irq_byname env ''ltdc-irq''))),
       Acquired (Interrupt (word_of_int (platform_get_irq_byname env ''ltdc-error-irq''))),
       Acquired Buffer, Acquired Cmap, Acquired Framebuffer])"
  using assms
  by (simp add: ltdcfb_register_def Let_def not_less [symmetric])

lemma env_ok_success:
  "ltdcfb_register env_ok fb =
     (0,
      ltdcfb_set_start (ltdcfb_register_timing (ltdcfb_register_info 0xC0000000 522240
        (fb\<lparr>fb_fix := (fb_fix fb)\<lparr>fix_mmio_start := 0x40016800, fix_mmio_len := 0x400\<rparr>,
            irq := 88, error_irq := 89\<rparr>))),
      [Acquired Clock, Acquired Clock_prepared, Acquired Register_map,
       Acquired (Interrupt 88), Acquired (Interrupt 89),
       Acquired Buffer, Acquired Cmap, Acquired Framebuffer])"
  using ltdcfb_register_success [of env_ok "()" "0x40016800" "0x400" "0xC0000000" fb]
  by (simp add: env_ok_def irq_lookup_ok_def request_irq_ok_def dma_alloc_ok_def
      fb_set_var_none_def)

lemma fb_registered_fields:
  "fix_smem_len (fb_fix (fb_registered m)) = 522240
   \<and> var_xres_virtual (fb_var (fb_registered m)) = xres m
   \<and> var_yres_virtual (fb_var (fb_registered m)) = yres m
   \<and> var_bits_per_pixel (fb_var (fb_registered m)) = 32"
  by (simp add: fb_registered_def env_ok_success fb_fix_set_start fb_var_set_start
      fb_fix_register_timing fb_var_register_timing smem_len_register_info var_register_info
      fb_of_mode_def)

text \<open>
  The registers after a registration in which every call succeeds and
  \<open>fb_set_var\<close> does nothing: the stride is still 0 when \<open>ltdcfb_set_start\<close> runs.
\<close>

lemma regs_fb_registered:
  "regs (fb_registered m) =
     (regs_zero
        (LTDC_IER := 0xf,
         LTDC_SSCR := (vsync_len m - 1) OR push_bit 16 (hsync_len m - 1),
         LTDC_BPCR := (vsync_len m + upper_margin m - 1)
                       OR push_bit 16 (hsync_len m + left_margin m - 1),
         LTDC_AWCR := (vsync_len m + upper_margin m + 272 - 1)
                       OR push_bit 16 (hsync_len m + left_margin m + 480 - 1),
         LTDC_TWCR := (vsync_len m + upper_margin m + 272 + lower_margin m - 1)
                       OR push_bit 16 (hsync_len m + left_margin m + 480 + right_margin m - 1),
         LTDC_GCR := 1,
         LTDC_L1CR := 1,
         LTDC_L1CFBAR := 0xC0000000,
         LTDC_L1CFBLR := 3,
         LTDC_L1PFCR := 0))"
  by (simp add: fb_registered_def env_ok_success regs_set_start regs_register_timing
      regs_register_info panel_mode_register_info fb_fix_set_start fb_var_set_start
      fb_fix_register_timing fb_var_register_timing ltdcfb_register_info_def Let_def
      fb_of_mode_def ltdc_fb_zero_def fb_fix_zero_def fb_var_zero_def regs_zero_def
      CNTL_LCDEN_def LTDC_ARGB_def)

section \<open>The layer-enable bit\<close>

text \<open>
  C6, as the code has it. \<open>ltdcfb_enable\<close> followed by \<open>ltdcfb_disable\<close> leaves the
  layer control register with its enable bit (bit 0) clear and every other bit as
  it was, and leaves every other register as it was; a second \<open>ltdcfb_enable\<close>, or
  a second \<open>ltdcfb_disable\<close>, changes no register. The enable bit is therefore
  restored only where it was clear before the pair.
\<close>

theorem enable_disable_clears_enable_bit:
  "regs (ltdcfb_disable (ltdcfb_enable fb)) =
     (regs fb)(LTDC_L1CR := regs fb LTDC_L1CR AND NOT CNTL_LCDEN)
   \<and> (\<forall>n. bit (regs (ltdcfb_disable (ltdcfb_enable fb)) LTDC_L1CR) n
          = (n \<noteq> 0 \<and> bit (regs fb LTDC_L1CR) n))
   \<and> regs (ltdcfb_enable (ltdcfb_enable fb)) = regs (ltdcfb_enable fb)
   \<and> regs (ltdcfb_disable (ltdcfb_disable fb)) = regs (ltdcfb_disable fb)"
proof -
  have a: "regs (ltdcfb_disable (ltdcfb_enable fb)) =
     (regs fb)(LTDC_L1CR := regs fb LTDC_L1CR AND NOT CNTL_LCDEN)"
    by (simp add: regs_enable regs_disable CNTL_LCDEN_def or_and_minus_two)
  have b: "\<forall>n. bit (regs (ltdcfb_disable (ltdcfb_enable fb)) LTDC_L1CR) n
          = (n \<noteq> 0 \<and> bit (regs fb LTDC_L1CR) n)"
    unfolding a CNTL_LCDEN_def by (simp only: fun_upd_same bit_and_not_one) simp
  have c: "regs (ltdcfb_enable (ltdcfb_enable fb)) = regs (ltdcfb_enable fb)"
    by (simp add: regs_enable CNTL_LCDEN_def)
  have d: "regs (ltdcfb_disable (ltdcfb_disable fb)) = regs (ltdcfb_disable fb)"
    by (simp add: regs_disable CNTL_LCDEN_def)
  from a b c d show ?thesis by blast
qed

text \<open>
  C6 as stated fails where the enable bit is set before the pair: from a control
  register holding 1, \<open>ltdcfb_enable\<close> then \<open>ltdcfb_disable\<close> leaves bit 0 clear.
\<close>

theorem enable_disable_restore_counterexample:
  "bit (regs (ltdcfb_disable (ltdcfb_enable
          (ltdc_fb_zero\<lparr>regs := regs_zero(LTDC_L1CR := 1)\<rparr>))) LTDC_L1CR) 0
   \<noteq> bit (regs (ltdc_fb_zero\<lparr>regs := regs_zero(LTDC_L1CR := 1)\<rparr>) LTDC_L1CR) 0"
  by (simp add: regs_enable regs_disable CNTL_LCDEN_def)

section \<open>The timing registers\<close>

text \<open>
  C4. For a mode with positive \<open>vsync_len\<close>, \<open>hsync_len\<close>, \<open>upper_margin\<close> and
  \<open>left_margin\<close>, registration writes \<open>(vsync_len - 1) | (hsync_len - 1) << 16\<close> to
  the sync-size register (offset 0x08) and
  \<open>(vsync_len + upper_margin - 1) | (hsync_len + left_margin - 1) << 16\<close> to the
  back-porch register (offset 0x0C); the subtraction does not wrap, so the
  sync-size value read as a number is the same expression on naturals, cut to 32
  bits by the shift. Both values are in the write log and are what the registers
  hold after the timing block.
\<close>

theorem sync_size_and_back_porch:
  assumes "0 < vsync_len (mode (panel fb))" and "0 < hsync_len (mode (panel fb))"
    and "0 < upper_margin (mode (panel fb))" and "0 < left_margin (mode (panel fb))"
  shows "regs (ltdcfb_register_timing fb) LTDC_SSCR =
           (vsync_len (mode (panel fb)) - 1) OR push_bit 16 (hsync_len (mode (panel fb)) - 1)
       \<and> regs (ltdcfb_register_timing fb) LTDC_BPCR =
           (vsync_len (mode (panel fb)) + upper_margin (mode (panel fb)) - 1)
           OR push_bit 16 (hsync_len (mode (panel fb)) + left_margin (mode (panel fb)) - 1)
       \<and> unat (regs (ltdcfb_register_timing fb) LTDC_SSCR) =
           (unat (vsync_len (mode (panel fb))) - 1)
           OR ((unat (hsync_len (mode (panel fb))) - 1) * 2 ^ 16) mod 2 ^ 32
       \<and> (LTDC_SSCR, regs (ltdcfb_register_timing fb) LTDC_SSCR)
            \<in> set (writes (ltdcfb_register_timing fb))
       \<and> (LTDC_BPCR, regs (ltdcfb_register_timing fb) LTDC_BPCR)
            \<in> set (writes (ltdcfb_register_timing fb))"
proof -
  let ?m = "mode (panel fb)"
  have s: "regs (ltdcfb_register_timing fb) LTDC_SSCR =
           (vsync_len ?m - 1) OR push_bit 16 (hsync_len ?m - 1)"
    by (simp add: regs_register_timing ltdc_offsets Let_def)
  have b: "regs (ltdcfb_register_timing fb) LTDC_BPCR =
           (vsync_len ?m + upper_margin ?m - 1)
           OR push_bit 16 (hsync_len ?m + left_margin ?m - 1)"
    by (simp add: regs_register_timing ltdc_offsets Let_def)
  have u: "unat (regs (ltdcfb_register_timing fb) LTDC_SSCR) =
           (unat (vsync_len ?m) - 1) OR ((unat (hsync_len ?m) - 1) * 2 ^ 16) mod 2 ^ 32"
    unfolding s unat_pack using assms(1,2) by (simp only: unat_pred)
  have ws: "(LTDC_SSCR, regs (ltdcfb_register_timing fb) LTDC_SSCR)
            \<in> set (writes (ltdcfb_register_timing fb))"
    unfolding s by (simp add: writes_register_timing Let_def)
  have wb: "(LTDC_BPCR, regs (ltdcfb_register_timing fb) LTDC_BPCR)
            \<in> set (writes (ltdcfb_register_timing fb))"
    unfolding b by (simp add: writes_register_timing Let_def)
  from s b u ws wb show ?thesis by blast
qed

text \<open>
  The mode of the worked scenario (\<open>hsync_len = 41\<close>, \<open>vsync_len = 10\<close>,
  \<open>left_margin = 13\<close>, \<open>upper_margin = 2\<close>): sync size 0x00280009, back porch
  0x0035000B, in the timing block and after the whole registration.
\<close>

theorem sync_size_and_back_porch_witness:
  "regs (ltdcfb_register_timing (fb_of_mode mode_480x272)) LTDC_SSCR = 0x00280009
   \<and> regs (ltdcfb_register_timing (fb_of_mode mode_480x272)) LTDC_BPCR = 0x0035000B
   \<and> regs (fb_registered mode_480x272) LTDC_SSCR = 0x00280009
   \<and> regs (fb_registered mode_480x272) LTDC_BPCR = 0x0035000B"
  using sync_size_and_back_porch [of "fb_of_mode mode_480x272"]
  by (simp add: fb_of_mode_def mode_480x272_def regs_fb_registered ltdc_offsets)

text \<open>
  C3, as the code has it. The active-width register (offset 0x10) and the
  total-width register (offset 0x14) receive the cumulative sums of the mode's
  sync lengths and margins with the active size fixed at 480 columns and 272
  lines: \<open>(vsync_len + upper_margin + 272 - 1) | (hsync_len + left_margin + 480 - 1) << 16\<close>,
  and the same with \<open>lower_margin\<close> and \<open>right_margin\<close> added. For a mode of 480x272
  these are the sums over the mode's own fields.
\<close>

theorem active_and_total_width:
  "regs (ltdcfb_register_timing fb) LTDC_AWCR =
     (vsync_len (mode (panel fb)) + upper_margin (mode (panel fb)) + 272 - 1)
     OR push_bit 16 (hsync_len (mode (panel fb)) + left_margin (mode (panel fb)) + 480 - 1)
   \<and> regs (ltdcfb_register_timing fb) LTDC_TWCR =
     (vsync_len (mode (panel fb)) + upper_margin (mode (panel fb)) + 272
        + lower_margin (mode (panel fb)) - 1)
     OR push_bit 16 (hsync_len (mode (panel fb)) + left_margin (mode (panel fb)) + 480
        + right_margin (mode (panel fb)) - 1)
   \<and> (xres (mode (panel fb)) = 480 \<and> yres (mode (panel fb)) = 272 \<longrightarrow>
      regs (ltdcfb_register_timing fb) LTDC_AWCR =
        (vsync_len (mode (panel fb)) + upper_margin (mode (panel fb))
           + yres (mode (panel fb)) - 1)
        OR push_bit 16 (hsync_len (mode (panel fb)) + left_margin (mode (panel fb))
           + xres (mode (panel fb)) - 1)
      \<and> regs (ltdcfb_register_timing fb) LTDC_TWCR =
        (vsync_len (mode (panel fb)) + upper_margin (mode (panel fb))
           + yres (mode (panel fb)) + lower_margin (mode (panel fb)) - 1)
        OR push_bit 16 (hsync_len (mode (panel fb)) + left_margin (mode (panel fb))
           + xres (mode (panel fb)) + right_margin (mode (panel fb)) - 1))
   \<and> (LTDC_AWCR, regs (ltdcfb_register_timing fb) LTDC_AWCR)
        \<in> set (writes (ltdcfb_register_timing fb))
   \<and> (LTDC_TWCR, regs (ltdcfb_register_timing fb) LTDC_TWCR)
        \<in> set (writes (ltdcfb_register_timing fb))"
proof -
  let ?m = "mode (panel fb)"
  have a: "regs (ltdcfb_register_timing fb) LTDC_AWCR =
     (vsync_len ?m + upper_margin ?m + 272 - 1)
     OR push_bit 16 (hsync_len ?m + left_margin ?m + 480 - 1)"
    by (simp add: regs_register_timing ltdc_offsets Let_def)
  have t: "regs (ltdcfb_register_timing fb) LTDC_TWCR =
     (vsync_len ?m + upper_margin ?m + 272 + lower_margin ?m - 1)
     OR push_bit 16 (hsync_len ?m + left_margin ?m + 480 + right_margin ?m - 1)"
    by (simp add: regs_register_timing ltdc_offsets Let_def)
  have wa: "(LTDC_AWCR, regs (ltdcfb_register_timing fb) LTDC_AWCR)
        \<in> set (writes (ltdcfb_register_timing fb))"
    unfolding a by (simp add: writes_register_timing Let_def)
  have wt: "(LTDC_TWCR, regs (ltdcfb_register_timing fb) LTDC_TWCR)
        \<in> set (writes (ltdcfb_register_timing fb))"
    unfolding t by (simp add: writes_register_timing Let_def)
  show ?thesis
    using wa wt unfolding a t by simp
qed

text \<open>
  The 480x272 mode of the worked scenario: active width 0x0215011B, total width
  0x0235011D, in the timing block and after the whole registration.
\<close>

theorem active_and_total_width_witness:
  "xres (mode (panel (fb_of_mode mode_480x272))) = 480
   \<and> yres (mode (panel (fb_of_mode mode_480x272))) = 272
   \<and> regs (ltdcfb_register_timing (fb_of_mode mode_480x272)) LTDC_AWCR = 0x0215011B
   \<and> regs (ltdcfb_register_timing (fb_of_mode mode_480x272)) LTDC_TWCR = 0x0235011D
   \<and> regs (fb_registered mode_480x272) LTDC_AWCR = 0x0215011B
   \<and> regs (fb_registered mode_480x272) LTDC_TWCR = 0x0235011D"
  using active_and_total_width [of "fb_of_mode mode_480x272"]
  by (simp add: fb_of_mode_def mode_480x272_def regs_fb_registered ltdc_offsets)

text \<open>
  C3 as stated fails for a mode of another size: for the 800x480 mode the
  active-width register does not hold the sum over the mode's \<open>yres\<close> and \<open>xres\<close>.
\<close>

theorem active_width_counterexample:
  "regs (ltdcfb_register_timing (fb_of_mode mode_800x480)) LTDC_AWCR
   \<noteq> (vsync_len (mode (panel (fb_of_mode mode_800x480)))
        + upper_margin (mode (panel (fb_of_mode mode_800x480)))
        + yres (mode (panel (fb_of_mode mode_800x480))) - 1)
      OR push_bit 16 (hsync_len (mode (panel (fb_of_mode mode_800x480)))
        + left_margin (mode (panel (fb_of_mode mode_800x480)))
        + xres (mode (panel (fb_of_mode mode_800x480))) - 1)"
  by (simp add: regs_register_timing ltdc_offsets Let_def fb_of_mode_def mode_800x480_def)

section \<open>The scan-out window\<close>

text \<open>
  C5, evaluated on the code. \<open>ltdcfb_set_start\<close> writes the address, then the
  length \<open>(line_length + 3) | line_length << 16\<close>, then the pixel format; the
  address it writes is \<open>smem_start + yoffset * line_length + yres * line_length\<close>,
  one visible frame past \<open>smem_start + yoffset * line_length\<close>. For the 480x272
  context with no vertical offset the address written is 0xC007F800, the end of
  the buffer, where the start 0xC0000000 is expected.
\<close>

theorem set_start_address:
  "writes (ltdcfb_set_start fb) =
     writes fb @
       [(LTDC_L1CFBAR, fix_smem_start (fb_fix fb)
            + var_yoffset (fb_var fb) * fix_line_length (fb_fix fb)
            + var_yres (fb_var fb) * fix_line_length (fb_fix fb)),
        (LTDC_L1CFBLR, (fix_line_length (fb_fix fb) + 3)
            OR push_bit 16 (fix_line_length (fb_fix fb))),
        (LTDC_L1PFCR, LTDC_ARGB)]
   \<and> writes (ltdcfb_set_start fb_panning) =
       [(LTDC_L1CFBAR, 0xC007F800), (LTDC_L1CFBLR, 0x07800783), (LTDC_L1PFCR, 0)]
   \<and> fix_smem_start (fb_fix fb_panning)
       + var_yoffset (fb_var fb_panning) * fix_line_length (fb_fix fb_panning) = 0xC0000000
   \<and> fix_smem_start (fb_fix fb_panning) + fix_smem_len (fb_fix fb_panning) = 0xC007F800"
  by (simp add: writes_set_start fb_panning_def ltdc_fb_zero_def fb_var_zero_def
      fb_fix_zero_def LTDC_ARGB_def)

section \<open>The mode check\<close>

text \<open>
  C7, evaluated on the code. \<open>ltdcfb_check_var\<close> returns 0 for every candidate of
  32 bits per pixel and \<open>-EINVAL\<close> for every other, whatever the size, and leaves
  the driver context as it was. The 800x480 candidate needs 1536000 bytes, more
  than the 522240 of the buffer, and is accepted.
\<close>

theorem check_var_ignores_size:
  "fst (ltdcfb_check_var var fb) = (if var_bits_per_pixel var = 32 then 0 else - EINVAL)
   \<and> snd (snd (ltdcfb_check_var var fb)) = fb
   \<and> fix_smem_len (fb_fix fb_panning)
        < var_xres_virtual var_800x480 * (var_bits_per_pixel var_800x480 div 8)
            * var_yres_virtual var_800x480
   \<and> fst (ltdcfb_check_var var_800x480 fb_panning) = 0"
  by (simp add: ltdcfb_check_var_def ltdcfb_set_bitfields_def Let_def var_800x480_def
      fb_panning_def ltdc_fb_zero_def fb_var_zero_def fb_fix_zero_def)

section \<open>Interrupt lookup and unwinding\<close>

text \<open>
  C10. The interrupt-line fields are unsigned, so neither is below 0 whatever
  \<open>platform_get_irq_byname\<close> returned. Once the clock and the register map are
  there, the next step of registration is always \<open>request_irq\<close> on the lookup
  result converted to \<open>u32\<close>, and when every later call succeeds registration
  returns 0 with both interrupts among the resources it holds, also for negative
  lookup results.
\<close>

theorem irq_lookup_error_unreachable:
  assumes "devm_clk_get env = Inr u" and "clk_prepare_enable env = 0"
    and "platform_get_resource env = Some res" and "ioremap env"
  shows "\<not> (word_of_int (platform_get_irq_byname env ''ltdc-irq'') :: u32) < 0
       \<and> \<not> (word_of_int (platform_get_irq_byname env ''ltdc-error-irq'') :: u32) < 0
       \<and> take 4 (snd (snd (ltdcfb_register env fb))) =
           [Acquired Clock, Acquired Clock_prepared, Acquired Register_map,
            if request_irq env 0 (word_of_int (platform_get_irq_byname env ''ltdc-irq'')) < 0
            then Failed (Interrupt (word_of_int (platform_get_irq_byname env ''ltdc-irq'')))
            else Acquired (Interrupt (word_of_int (platform_get_irq_byname env ''ltdc-irq'')))]
       \<and> (0 \<le> request_irq env 0 (word_of_int (platform_get_irq_byname env ''ltdc-irq''))
          \<and> 0 \<le> request_irq env 1 (word_of_int (platform_get_irq_byname env ''ltdc-error-irq''))
          \<and> dma_alloc_wc env 522240 \<noteq> None
          \<and> fb_alloc_cmap env = 0 \<and> register_framebuffer env = 0
          \<longrightarrow> fst (ltdcfb_register env fb) = 0
              \<and> acquired (snd (snd (ltdcfb_register env fb))) =
                  [Clock, Clock_prepared, Register_map,
                   Interrupt (word_of_int (platform_get_irq_byname env ''ltdc-irq'')),
                   Interrupt (word_of_int (platform_get_irq_byname env ''ltdc-error-irq'')),
                   Buffer, Cmap, Framebuffer])"
proof -
  have t: "take 4 (snd (snd (ltdcfb_register env fb))) =
           [Acquired Clock, Acquired Clock_prepared, Acquired Register_map,
            if request_irq env 0 (word_of_int (platform_get_irq_byname env ''ltdc-irq'')) < 0
            then Failed (Interrupt (word_of_int (platform_get_irq_byname env ''ltdc-irq'')))
            else Acquired (Interrupt (word_of_int (platform_get_irq_byname env ''ltdc-irq'')))]"
    using assms by (rule ltdcfb_register_reaches_irq)
  have s: "fst (ltdcfb_register env fb) = 0
           \<and> acquired (snd (snd (ltdcfb_register env fb))) =
                  [Clock, Clock_prepared, Register_map,
                   Interrupt (word_of_int (platform_get_irq_byname env ''ltdc-irq'')),
                   Interrupt (word_of_int (platform_get_irq_byname env ''ltdc-error-irq'')),
                   Buffer, Cmap, Framebuffer]"
    if ok: "0 \<le> request_irq env 0 (word_of_int (platform_get_irq_byname env ''ltdc-irq''))"
        "0 \<le> request_irq env 1 (word_of_int (platform_get_irq_byname env ''ltdc-error-irq''))"
        "dma_alloc_wc env 522240 \<noteq> None"
        "fb_alloc_cmap env = 0" "register_framebuffer env = 0"
  proof -
    obtain dma where d: "dma_alloc_wc env 522240 = Some dma" using ok(3) by blast
    obtain a l where r: "res = (a, l)" by (cases res)
    show ?thesis
      using ltdcfb_register_success [OF assms(1,2) assms(3) [unfolded r] assms(4) ok(1,2) d ok(4,5), of fb]
      by simp
  qed
  from t s show ?thesis by simp
qed

text \<open>
  Both lookups return \<open>-ENXIO\<close>: registration succeeds and holds interrupt line
  0xFFFFFFFA twice.
\<close>

theorem irq_lookup_error_unreachable_witness:
  "platform_get_irq_byname env_no_irq ''ltdc-irq'' = - 6
   \<and> platform_get_irq_byname env_no_irq ''ltdc-error-irq'' = - 6
   \<and> fst (ltdcfb_register env_no_irq (fb_of_mode mode_480x272)) = 0
   \<and> acquired (snd (snd (ltdcfb_register env_no_irq (fb_of_mode mode_480x272)))) =
        [Clock, Clock_prepared, Register_map, Interrupt 0xFFFFFFFA, Interrupt 0xFFFFFFFA,
         Buffer, Cmap, Framebuffer]"
  using irq_lookup_error_unreachable [of env_no_irq "()" "(0x40016800, 0x400)" "fb_of_mode mode_480x272"]
  by (simp add: env_no_irq_def env_ok_def irq_lookup_fails_def request_irq_ok_def
      dma_alloc_ok_def ENXIO_def)

text \<open>
  C9, evaluated on the code. The first \<open>request_irq\<close> fails with \<open>-16\<close> after the
  clock, its preparation and the register map were acquired: registration jumps
  to \<open>clk_unprep\<close>, releases the preparation and the clock, returns \<open>-ENXIO\<close>, and
  leaves the register map held.
\<close>

theorem irq_failure_leaks_register_map:
  "fst (ltdcfb_register env_irq_fails (fb_of_mode mode_480x272)) = - ENXIO
   \<and> snd (snd (ltdcfb_register env_irq_fails (fb_of_mode mode_480x272))) =
       [Acquired Clock, Acquired Clock_prepared, Acquired Register_map,
        Failed (Interrupt 88), Released Clock_prepared, Released Clock]
   \<and> held (snd (snd (ltdcfb_register env_irq_fails (fb_of_mode mode_480x272)))) = [Register_map]
   \<and> request_irq env_irq_fails 0 88 = - 16"
  by (simp add: ltdcfb_register_def Let_def env_irq_fails_def env_ok_def irq_lookup_ok_def
      request_irq_busy_def clk_unprep_def free_clk_def held_def ENXIO_def)

section \<open>Stride and buffer length\<close>

lemma unat_stride:
  fixes w b :: u32
  assumes "8 dvd unat b" and "unat w * unat b < 2 ^ 32"
  shows "unat (w * b div 8) = unat w * (unat b div 8)"
proof -
  have "unat (w * b) = unat w * unat b"
    using assms(2) by (simp add: unat_word_ariths)
  then have "unat (w * b div 8) = unat w * unat b div 8"
    by (simp add: unat_div)
  also have "\<dots> = unat w * (unat b div 8)"
    using assms(1) by (simp add: div_mult_swap)
  finally show ?thesis .
qed

lemma mode_resolutions:
  "xres mode_480x272 = 480 \<and> yres mode_480x272 = 272
   \<and> xres mode_800x480 = 800 \<and> yres mode_800x480 = 480"
  by (simp add: mode_480x272_def mode_800x480_def)

lemma line_length_fb_registered: "fix_line_length (fb_fix (fb_registered m)) = 0"
  by (simp add: fb_registered_def env_ok_success fb_fix_set_start fb_fix_register_timing
      ltdcfb_register_info_def Let_def fb_of_mode_def ltdc_fb_zero_def fb_fix_zero_def)

lemma fls_4: "fls 4 = 3"
  by (simp add: fls.simps)

text \<open>
  A budget of 5000000 bytes per second at the 9000 kHz pixel clock: raw value 4,
  4 bits per pixel.
\<close>

lemma of_init_5000000:
  "ltdcfb_of_init (of_env_of mode_480x272 (Some 5000000)) ltdc_fb_zero =
     Some (0, ltdc_fb_zero\<lparr>panel := \<lparr>mode = mode_480x272, width = - 1, height = - 1,
                                        bpp = 4, grayscale = 0\<rparr>\<rparr>)"
  by (simp add: of_env_of_def mode_480x272_def ltdcfb_of_init_def ltdcfb_of_init_bpp_def
      PICOS2KHZ_def rounddown_pow_of_two_def fls_4 Let_def ltdc_panel_zero_def)

lemma fb_probed_4bpp_fields:
  "var_xres_virtual (fb_var (fb_probed mode_480x272 (Some 5000000))) = 480
   \<and> var_bits_per_pixel (fb_var (fb_probed mode_480x272 (Some 5000000))) = 4"
  unfolding fb_probed_def of_init_5000000
  by (simp add: env_ok_success fb_var_set_start fb_var_register_timing var_register_info
      mode_480x272_def)

lemma fb_wide_fields:
  "var_xres_virtual (fb_var fb_wide) = 0x8000000
   \<and> var_bits_per_pixel (fb_var fb_wide) = 32"
  by (simp add: fb_wide_def fb_registered_fields)

text \<open>
  C8, as the code has it. After every \<open>ltdcfb_set_par\<close> the stride is
  \<open>xres_virtual * bits_per_pixel / 8\<close> computed in 32-bit arithmetic, and the
  buffer length and the variable screen information are as before the call.
  Where the depth is a multiple of 8 and \<open>width * bpp\<close> is below \<open>2^32\<close>, that
  stride is \<open>width * (bpp / 8)\<close>, and the buffer holds \<open>stride * height\<close> bytes
  exactly when \<open>width * (bpp / 8) * height\<close> is at most the buffer length. A
  successful registration sets the buffer length to \<open>480 * 272 * 4\<close> whatever the
  panel, as long as \<open>fb_set_var\<close> of the framebuffer core does not change it. In
  particular, for the 480x272 panel at 32 bits per pixel, after registration and
  \<open>ltdcfb_set_par\<close> the stride is \<open>480 * 4\<close> and the buffer holds
  \<open>stride * height\<close> bytes.
\<close>

theorem set_par_stride_and_fixed_buffer:
  "fix_line_length (fb_fix (snd (ltdcfb_set_par fb)))
     = var_xres_virtual (fb_var fb) * var_bits_per_pixel (fb_var fb) div 8
   \<and> fix_smem_len (fb_fix (snd (ltdcfb_set_par fb))) = fix_smem_len (fb_fix fb)
   \<and> fb_var (snd (ltdcfb_set_par fb)) = fb_var fb
   \<and> (8 dvd unat (var_bits_per_pixel (fb_var fb))
        \<and> unat (var_xres_virtual (fb_var fb)) * unat (var_bits_per_pixel (fb_var fb)) < 2 ^ 32
      \<longrightarrow> unat (fix_line_length (fb_fix (snd (ltdcfb_set_par fb))))
            = unat (var_xres_virtual (fb_var fb)) * (unat (var_bits_per_pixel (fb_var fb)) div 8)
          \<and> (unat (fix_line_length (fb_fix (snd (ltdcfb_set_par fb))))
                * unat (var_yres_virtual (fb_var (snd (ltdcfb_set_par fb))))
              \<le> unat (fix_smem_len (fb_fix (snd (ltdcfb_set_par fb))))
             ) = (unat (var_xres_virtual (fb_var fb))
                   * (unat (var_bits_per_pixel (fb_var fb)) div 8)
                   * unat (var_yres_virtual (fb_var fb))
                  \<le> unat (fix_smem_len (fb_fix fb))))
   \<and> (devm_clk_get env = Inr u \<and> clk_prepare_enable env = 0
        \<and> platform_get_resource env = Some (a, l) \<and> ioremap env
        \<and> 0 \<le> request_irq env 0 (word_of_int (platform_get_irq_byname env ''ltdc-irq''))
        \<and> 0 \<le> request_irq env 1 (word_of_int (platform_get_irq_byname env ''ltdc-error-irq''))
        \<and> dma_alloc_wc env 522240 = Some dma
        \<and> fb_alloc_cmap env = 0 \<and> register_framebuffer env = 0
        \<and> (\<forall>s. fix_smem_len (fb_fix (fb_set_var env s)) = fix_smem_len (fb_fix s))
      \<longrightarrow> fst (ltdcfb_register env fb0) = 0
          \<and> fix_smem_len (fb_fix (fst (snd (ltdcfb_register env fb0)))) = 480 * 272 * 4)
   \<and> var_xres_virtual (fb_var (fb_registered mode_480x272)) = 480
   \<and> var_yres_virtual (fb_var (fb_registered mode_480x272)) = 272
   \<and> var_bits_per_pixel (fb_var (fb_registered mode_480x272)) = 32
   \<and> unat (fix_line_length (fb_fix (snd (ltdcfb_set_par (fb_registered mode_480x272))))) = 480 * 4
   \<and> unat (fix_line_length (fb_fix (snd (ltdcfb_set_par (fb_registered mode_480x272)))))
        * unat (var_yres_virtual (fb_var (snd (ltdcfb_set_par (fb_registered mode_480x272)))))
      \<le> unat (fix_smem_len (fb_fix (snd (ltdcfb_set_par (fb_registered mode_480x272)))))"
proof -
  have s: "fix_line_length (fb_fix (snd (ltdcfb_set_par fb)))
     = var_xres_virtual (fb_var fb) * var_bits_per_pixel (fb_var fb) div 8"
    by (simp add: fb_fix_set_par)
  have a: "fix_smem_len (fb_fix (snd (ltdcfb_set_par fb))) = fix_smem_len (fb_fix fb)"
    by (simp add: fb_fix_set_par)
  have b: "fb_var (snd (ltdcfb_set_par fb)) = fb_var fb"
    by (rule fb_var_set_par)
  have c: "unat (fix_line_length (fb_fix (snd (ltdcfb_set_par fb))))
            = unat (var_xres_virtual (fb_var fb)) * (unat (var_bits_per_pixel (fb_var fb)) div 8)"
    if "8 dvd unat (var_bits_per_pixel (fb_var fb))"
      and "unat (var_xres_virtual (fb_var fb)) * unat (var_bits_per_pixel (fb_var fb)) < 2 ^ 32"
    using that by (simp add: fb_fix_set_par unat_stride)
  have d: "fst (ltdcfb_register env fb0) = 0
          \<and> fix_smem_len (fb_fix (fst (snd (ltdcfb_register env fb0)))) = 480 * 272 * 4"
    if "devm_clk_get env = Inr u" "clk_prepare_enable env = 0"
        "platform_get_resource env = Some (a, l)" "ioremap env"
        "0 \<le> request_irq env 0 (word_of_int (platform_get_irq_byname env ''ltdc-irq''))"
        "0 \<le> request_irq env 1 (word_of_int (platform_get_irq_byname env ''ltdc-error-irq''))"
        "dma_alloc_wc env 522240 = Some dma"
        "fb_alloc_cmap env = 0" "register_framebuffer env = 0"
        "\<forall>s. fix_smem_len (fb_fix (fb_set_var env s)) = fix_smem_len (fb_fix s)"
    using that(10)
    by (simp add: ltdcfb_register_success [OF that(1-9)] fb_fix_set_start
        fb_fix_register_timing smem_len_register_info)
  have c': "8 dvd unat (var_bits_per_pixel (fb_var fb))
        \<and> unat (var_xres_virtual (fb_var fb)) * unat (var_bits_per_pixel (fb_var fb)) < 2 ^ 32
      \<longrightarrow> unat (fix_line_length (fb_fix (snd (ltdcfb_set_par fb))))
            = unat (var_xres_virtual (fb_var fb)) * (unat (var_bits_per_pixel (fb_var fb)) div 8)
          \<and> (unat (fix_line_length (fb_fix (snd (ltdcfb_set_par fb))))
                * unat (var_yres_virtual (fb_var (snd (ltdcfb_set_par fb))))
              \<le> unat (fix_smem_len (fb_fix (snd (ltdcfb_set_par fb))))
             ) = (unat (var_xres_virtual (fb_var fb))
                   * (unat (var_bits_per_pixel (fb_var fb)) div 8)
                   * unat (var_yres_virtual (fb_var fb))
                  \<le> unat (fix_smem_len (fb_fix fb)))"
    using c by (simp only: a b) simp
  have d': "devm_clk_get env = Inr u \<and> clk_prepare_enable env = 0
        \<and> platform_get_resource env = Some (a, l) \<and> ioremap env
        \<and> 0 \<le> request_irq env 0 (word_of_int (platform_get_irq_byname env ''ltdc-irq''))
        \<and> 0 \<le> request_irq env 1 (word_of_int (platform_get_irq_byname env ''ltdc-error-irq''))
        \<and> dma_alloc_wc env 522240 = Some dma
        \<and> fb_alloc_cmap env = 0 \<and> register_framebuffer env = 0
        \<and> (\<forall>s. fix_smem_len (fb_fix (fb_set_var env s)) = fix_smem_len (fb_fix s))
      \<longrightarrow> fst (ltdcfb_register env fb0) = 0
          \<and> fix_smem_len (fb_fix (fst (snd (ltdcfb_register env fb0)))) = 480 * 272 * 4"
    using d by blast
  have e: "var_xres_virtual (fb_var (fb_registered mode_480x272)) = 480
   \<and> var_yres_virtual (fb_var (fb_registered mode_480x272)) = 272
   \<and> var_bits_per_pixel (fb_var (fb_registered mode_480x272)) = 32
   \<and> unat (fix_line_length (fb_fix (snd (ltdcfb_set_par (fb_registered mode_480x272))))) = 480 * 4
   \<and> unat (fix_line_length (fb_fix (snd (ltdcfb_set_par (fb_registered mode_480x272)))))
        * unat (var_yres_virtual (fb_var (snd (ltdcfb_set_par (fb_registered mode_480x272)))))
      \<le> unat (fix_smem_len (fb_fix (snd (ltdcfb_set_par (fb_registered mode_480x272)))))"
    by (simp add: fb_fix_set_par fb_var_set_par fb_registered_fields mode_resolutions)
  show ?thesis
    by (rule conjI [OF s conjI [OF a conjI [OF b conjI [OF c' conjI [OF d' e]]]]])
qed

text \<open>
  The 480x272 panel at 32 bits per pixel: the depth is a multiple of 8, the
  product fits, registration succeeds with a buffer of 522240 bytes, and after
  \<open>ltdcfb_set_par\<close> the stride is 1920 and the buffer holds the frame.
\<close>

theorem set_par_stride_and_fixed_buffer_witness:
  "8 dvd unat (var_bits_per_pixel (fb_var (fb_registered mode_480x272)))
   \<and> unat (var_xres_virtual (fb_var (fb_registered mode_480x272)))
        * unat (var_bits_per_pixel (fb_var (fb_registered mode_480x272))) < 2 ^ 32
   \<and> fst (ltdcfb_register env_ok (fb_of_mode mode_480x272)) = 0
   \<and> fix_smem_len (fb_fix (fb_registered mode_480x272)) = 522240
   \<and> fix_line_length (fb_fix (snd (ltdcfb_set_par (fb_registered mode_480x272)))) = 1920
   \<and> unat (fix_line_length (fb_fix (snd (ltdcfb_set_par (fb_registered mode_480x272))))) = 480 * 4
   \<and> unat (fix_line_length (fb_fix (snd (ltdcfb_set_par (fb_registered mode_480x272)))))
        * unat (var_yres_virtual (fb_var (snd (ltdcfb_set_par (fb_registered mode_480x272)))))
      \<le> unat (fix_smem_len (fb_fix (snd (ltdcfb_set_par (fb_registered mode_480x272)))))"
  using set_par_stride_and_fixed_buffer [of "fb_registered mode_480x272" env_ok "()"
      "0x40016800" "0x400" "0xC0000000" "fb_of_mode mode_480x272"]
  by (simp add: fb_registered_fields mode_resolutions env_ok_def irq_lookup_ok_def
      request_irq_ok_def dma_alloc_ok_def fb_set_var_none_def)

text \<open>
  C8 as stated fails in four places. After a successful registration of the
  480x272 panel at 32 bits per pixel, with a framebuffer core whose \<open>fb_set_var\<close>
  leaves the context as it is, the stride is 0, not \<open>480 * 4\<close>: registration
  itself never assigns it. For the 800x480 panel at 32 bits per pixel,
  registration succeeds, \<open>ltdcfb_set_par\<close> sets the stride to \<open>800 * 4\<close>, and the
  buffer is shorter than \<open>stride * height\<close>. For the 480x272 panel probed with a
  budget that leaves 4 bits per pixel, \<open>ltdcfb_set_par\<close> sets the stride to 240,
  where \<open>width * (bpp / 8)\<close> is 0. For a virtual width of \<open>2^27\<close> at 32 bits per
  pixel the product wraps and \<open>ltdcfb_set_par\<close> sets the stride to 0, where
  \<open>width * (bpp / 8)\<close> is \<open>2^29\<close>.
\<close>

theorem stride_and_buffer_invariant_counterexample:
  "fst (ltdcfb_register env_ok (fb_of_mode mode_480x272)) = 0
   \<and> unat (fix_line_length (fb_fix (fb_registered mode_480x272))) = 0
   \<and> unat (var_xres_virtual (fb_var (fb_registered mode_480x272)))
        * (unat (var_bits_per_pixel (fb_var (fb_registered mode_480x272))) div 8) = 480 * 4
   \<and> fst (ltdcfb_register env_ok (fb_of_mode mode_800x480)) = 0
   \<and> unat (fix_line_length (fb_fix (snd (ltdcfb_set_par (fb_registered mode_800x480))))) = 800 * 4
   \<and> \<not> unat (fix_line_length (fb_fix (snd (ltdcfb_set_par (fb_registered mode_800x480)))))
          * unat (var_yres_virtual (fb_var (snd (ltdcfb_set_par (fb_registered mode_800x480)))))
        \<le> unat (fix_smem_len (fb_fix (snd (ltdcfb_set_par (fb_registered mode_800x480)))))
   \<and> unat (fix_line_length (fb_fix (snd (ltdcfb_set_par (fb_probed mode_480x272 (Some 5000000))))))
        = 240
   \<and> unat (var_xres_virtual (fb_var (fb_probed mode_480x272 (Some 5000000))))
        * (unat (var_bits_per_pixel (fb_var (fb_probed mode_480x272 (Some 5000000)))) div 8) = 0
   \<and> unat (fix_line_length (fb_fix (snd (ltdcfb_set_par fb_wide)))) = 0
   \<and> unat (var_xres_virtual (fb_var fb_wide))
        * (unat (var_bits_per_pixel (fb_var fb_wide)) div 8) = 536870912"
  by (simp add: env_ok_success fb_fix_set_par fb_var_set_par fb_registered_fields
      line_length_fb_registered fb_probed_4bpp_fields fb_wide_fields mode_resolutions)

section \<open>Bits per pixel\<close>

lemma fls_bounds: "0 < n \<Longrightarrow> 2 ^ (fls n - 1) \<le> n \<and> n < 2 ^ fls n"
proof (induction n rule: fls.induct)
  case (1 n)
  show ?case
  proof (cases "n div 2 = 0")
    case True
    with "1.prems" have "n = 1" by (simp add: div_eq_0_iff) 
    then show ?thesis by (simp add: fls.simps)
  next
    case False
    with 1 have ih: "2 ^ (fls (n div 2) - 1) \<le> n div 2 \<and> n div 2 < 2 ^ fls (n div 2)"
      by simp
    have pos: "0 < fls (n div 2)" using False by (simp add: fls.simps [of "n div 2"])
    have f: "fls n = Suc (fls (n div 2))" using "1.prems" by (simp add: fls.simps [of n])
    have "2 ^ (fls n - 1) = 2 * 2 ^ (fls (n div 2) - 1)"
      using pos by (simp add: f power_Suc [symmetric] del: power_Suc)
    also have "\<dots> \<le> 2 * (n div 2)" using ih by simp
    also have "\<dots> \<le> n" by simp
    finally have lo: "2 ^ (fls n - 1) \<le> n" .
    have "n < 2 * (n div 2) + 2" by presburger
    also have "\<dots> \<le> 2 * 2 ^ fls (n div 2)" using ih by simp
    finally have hi: "n < 2 ^ fls n" by (simp add: f)
    from lo hi show ?thesis by simp
  qed
qed

lemma spec_rounddown_fls:
  assumes "0 < n"
  shows "spec_rounddown n = 2 ^ (fls n - 1)"
  unfolding spec_rounddown_def
proof (rule Max_eqI)
  show "finite {p. p \<le> n \<and> (\<exists>k. p = 2 ^ k)}" by simp
next
  fix y assume "y \<in> {p. p \<le> n \<and> (\<exists>k. p = 2 ^ k)}"
  then obtain k where y: "y = 2 ^ k" and le: "y \<le> n" by blast
  have "(2::nat) ^ k \<le> n" using le y by simp
  also have "n < 2 ^ fls n" using fls_bounds [OF assms] by simp
  finally have "k < fls n" by simp
  then have "k \<le> fls n - 1" by simp
  then show "y \<le> 2 ^ (fls n - 1)" unfolding y by (simp add: power_increasing)
next
  show "2 ^ (fls n - 1) \<in> {p. p \<le> n \<and> (\<exists>k. p = 2 ^ k)}"
    using fls_bounds [OF assms] by blast
qed

lemma fls_le_32: "n < 2 ^ 32 \<Longrightarrow> fls n \<le> 32"
proof (rule ccontr)
  assume n: "n < 2 ^ 32" and "\<not> fls n \<le> 32"
  then have big: "32 \<le> fls n - 1" by simp
  then have pos: "0 < n" by (cases "n = 0") (simp_all add: fls.simps)
  have "(2::nat) ^ 32 \<le> 2 ^ (fls n - 1)" using big by (rule power_increasing) simp
  also have "\<dots> \<le> n" using fls_bounds [OF pos] by simp
  finally show False using n by simp
qed

lemma unat_two_power: "k < 32 \<Longrightarrow> unat ((2::u32) ^ k) = 2 ^ k"
proof -
  assume k: "k < 32"
  have lt: "(2::nat) ^ k < 2 ^ 32" using k by (rule power_strict_increasing) simp
  have "unat ((2::u32) ^ k) = unat (of_nat (2 ^ k) :: u32)" by simp
  also have "\<dots> = 2 ^ k mod 2 ^ 32" by (simp only: unat_of_nat) simp
  also have "\<dots> = 2 ^ k" using lt by (rule mod_less)
  finally show ?thesis .
qed

lemma unat_rounddown:
  assumes "n \<noteq> (0::u32)"
  shows "rounddown_pow_of_two n = Some (push_bit (fls (unat n) - 1) 1)
         \<and> unat (push_bit (fls (unat n) - 1) 1 :: u32) = spec_rounddown (unat n)"
proof -
  have pos: "0 < unat n" using assms by (simp add: unat_gt_0)
  have "unat n < 2 ^ 32" using unsigned_less [of n] by simp
  then have "fls (unat n) \<le> 32" by (rule fls_le_32)
  moreover have "0 < fls (unat n)" using pos by (simp add: fls.simps [of "unat n"])
  ultimately have lt: "fls (unat n) - 1 < 32" by simp
  have "unat (push_bit (fls (unat n) - 1) 1 :: u32) = 2 ^ (fls (unat n) - 1)"
    using lt by (simp add: unat_two_power)
  then show ?thesis using assms pos by (simp add: rounddown_pow_of_two_def spec_rounddown_fls)
qed

lemma raw_nat: "(8 * B) div (K * 1000) = B div 125 div (K::nat)"
proof -
  have "(8 * B) div (K * 1000) = (8 * B) div (8 * (125 * K))" by (simp add: mult.commute)
  also have "\<dots> = B div (125 * K)" by simp
  also have "\<dots> = B div 125 div K" by (simp add: div_mult2_eq)
  finally show ?thesis .
qed

lemma unat_khz: "unat ((1000000000::u32) div P) = 1000000000 div unat P"
  by (simp add: unat_div)

lemma unat_raw:
  "unat ((B::u32) div (1000 div 8) div (1000000000 div P)) = spec_bpp_raw (unat B) (unat P)"
  by (simp add: spec_bpp_raw_def raw_nat unat_div)

lemma of_init_bpp_spec:
  assumes "1 \<le> spec_bpp_raw (unat B) (unat P)"
  shows "\<exists>b. ltdcfb_of_init_bpp (Some B) P = Some b \<and> unat b = spec_bpp (unat B) (unat P)
             \<and> b \<le> 32"
proof -
  let ?khz = "(1000000000::u32) div P"
  let ?raw = "B div (1000 div 8) div ?khz"
  have raw: "unat ?raw = spec_bpp_raw (unat B) (unat P)" by (rule unat_raw)
  have P: "P \<noteq> 0" using assms by (auto simp: spec_bpp_raw_def)
  have khz: "?khz \<noteq> 0"
  proof
    assume "?khz = 0"
    then have "unat ?khz = 0" by simp
    then have "1000000000 div unat P = 0" by (simp only: unat_khz)
    then show False using assms by (simp add: spec_bpp_raw_def)
  qed
  have nz: "?raw \<noteq> 0" using assms raw by (metis not_one_le_zero unat_0)
  note rd = unat_rounddown [OF nz]
  let ?p = "push_bit (fls (unat ?raw) - 1) 1 :: u32"
  let ?b = "if ?p > 32 then 32 else ?p"
  have eq: "ltdcfb_of_init_bpp (Some B) P = Some ?b"
    using P khz rd by (simp add: ltdcfb_of_init_bpp_def PICOS2KHZ_def)
  have "unat ?b = min 32 (unat ?p)"
    by (simp add: word_less_nat_alt min_def)
  then have u: "unat ?b = spec_bpp (unat B) (unat P)"
    using rd raw by (simp add: spec_bpp_def)
  have "?b \<le> 32" by (simp add: linorder_not_less)
  with eq u show ?thesis by blast
qed

lemma of_init_bpp_undefined:
  assumes "spec_bpp_raw (unat B) (unat P) = 0"
  shows "ltdcfb_of_init_bpp (Some B) P = None"
proof -
  have "unat (B div (1000 div 8) div (1000000000 div P)) = 0"
    using assms by (simp only: unat_raw)
  then have "B div (1000 div 8) div (1000000000 div P) = 0"
    by (simp add: unat_eq_0)
  then show ?thesis
    by (simp add: ltdcfb_of_init_bpp_def PICOS2KHZ_def rounddown_pow_of_two_def)
qed

lemma unat_ucast_bpp: "b \<le> (32::u32) \<Longrightarrow> unat (ucast b :: 8 word) = unat b"
proof -
  assume "b \<le> 32"
  then have "unat b \<le> 32" by (simp add: word_le_nat_alt)
  then have "unat b < 2 ^ 8" by simp
  then show ?thesis by (simp add: unsigned_ucast_eq take_bit_nat_eq_self)
qed

text \<open>
  C1. Once the mode has been read, \<open>ltdcfb_of_init\<close> without a bandwidth budget
  returns 0 with 32 bits per pixel; with a budget \<open>B\<close> and pixel clock \<open>P\<close> whose raw
  value \<open>floor (8 * B / (PICOS2KHZ P * 1000))\<close> is at least 1, it returns 0 with the
  bits per pixel of the reference definition: the largest power of two not above
  the raw value, clamped to 32.
\<close>

theorem of_init_bpp_matches_spec:
  assumes "devm_kzalloc env" and "of_graph_get_next_endpoint env"
    and "fst (of_get_mode env) = 0"
  shows "(max_memory_bandwidth env = None \<longrightarrow>
           (\<exists>fb'. ltdcfb_of_init env fb = Some (0, fb') \<and> unat (bpp (panel fb')) = 32))
       \<and> (\<forall>B. max_memory_bandwidth env = Some B
               \<and> 1 \<le> spec_bpp_raw (unat B) (unat (pixclock (snd (of_get_mode env))))
            \<longrightarrow> (\<exists>fb'. ltdcfb_of_init env fb = Some (0, fb')
                   \<and> unat (bpp (panel fb'))
                       = spec_bpp (unat B) (unat (pixclock (snd (of_get_mode env))))))"
proof (intro conjI impI allI)
  assume "max_memory_bandwidth env = None"
  then show "\<exists>fb'. ltdcfb_of_init env fb = Some (0, fb') \<and> unat (bpp (panel fb')) = 32"
    using assms by (simp add: ltdcfb_of_init_def ltdcfb_of_init_bpp_def Let_def)
next
  fix B
  assume h: "max_memory_bandwidth env = Some B
               \<and> 1 \<le> spec_bpp_raw (unat B) (unat (pixclock (snd (of_get_mode env))))"
  let ?P = "pixclock (snd (of_get_mode env))"
  from h of_init_bpp_spec [of B ?P]
  obtain b where b: "ltdcfb_of_init_bpp (Some B) ?P = Some b"
    and u: "unat b = spec_bpp (unat B) (unat ?P)" and le: "b \<le> 32"
    by blast
  show "\<exists>fb'. ltdcfb_of_init env fb = Some (0, fb')
              \<and> unat (bpp (panel fb')) = spec_bpp (unat B) (unat ?P)"
    using assms h b u unat_ucast_bpp [OF le]
    by (simp add: ltdcfb_of_init_def Let_def)
qed

lemma fls_17: "fls 17 = 5"
  by (simp add: fls.simps)

text \<open>
  A budget of 20000000 bytes per second at a pixel clock of 111111 ps (9000 kHz):
  raw value 17, 16 bits per pixel.
\<close>

theorem of_init_bpp_matches_spec_witness:
  "1 \<le> spec_bpp_raw (unat (20000000::u32)) (unat (pixclock mode_480x272))
   \<and> spec_bpp (unat (20000000::u32)) (unat (pixclock mode_480x272)) = 16
   \<and> ltdcfb_of_init_bpp (Some 20000000) (pixclock mode_480x272) = Some 16
   \<and> ltdcfb_of_init_bpp None (pixclock mode_480x272) = Some 32"
  using of_init_bpp_matches_spec [of "of_env_of mode_480x272 (Some 20000000)" ltdc_fb_zero]
  by (simp add: of_env_of_def mode_480x272_def spec_bpp_raw_def ltdcfb_of_init_def
      ltdcfb_of_init_bpp_def PICOS2KHZ_def rounddown_pow_of_two_def fls_17 Let_def)

text \<open>
  C2, evaluated on the code. With a budget of 0, or of 1000 bytes per second, at
  the 9000 kHz pixel clock the raw value is 0; \<open>ltdcfb_of_init\<close> has no test for
  it and hands it to \<open>rounddown_pow_of_two\<close>, which has no result for 0: the run
  leaves defined behaviour and no error code is returned.
\<close>

theorem of_init_small_bandwidth_undefined:
  "ltdcfb_of_init (of_env_of mode_480x272 (Some 0)) ltdc_fb_zero = None
   \<and> ltdcfb_of_init (of_env_of mode_480x272 (Some 1000)) ltdc_fb_zero = None
   \<and> spec_bpp_raw 0 (unat (pixclock mode_480x272)) = 0
   \<and> spec_bpp_raw 1000 (unat (pixclock mode_480x272)) = 0"
  by (simp add: of_env_of_def mode_480x272_def spec_bpp_raw_def ltdcfb_of_init_def
      ltdcfb_of_init_bpp_def PICOS2KHZ_def rounddown_pow_of_two_def Let_def)

end
